theory Spec2Isabelle
  imports Complex_Main "HOL-Library.Char_ord" "HOL-Library.List_Lexorder"
begin

section \<open>The modules API client (google/appengine/api/modules/modules.py)\<close>

text \<open>
  A shallow embedding of \<^verbatim>\<open>modules.py\<close>. Python values that may be \<^verbatim>\<open>None\<close> are
  options, every \<^verbatim>\<open>raise\<close> is a value of \<open>error\<close> returned on the left of a sum,
  the process environment is a map, and the remote administrative API is a parameter of
  the world the functions run in. Names follow the source; a leading underscore is
  dropped (\<^verbatim>\<open>_raise_error\<close> is \<open>raise_error\<close>).
\<close>

subsection \<open>Exceptions\<close>

text \<open>
  The argument an exception of this module is built from: a formatted message, or the
  \<^verbatim>\<open>HttpError\<close> it wraps (\<^verbatim>\<open>raise X(e) from e\<close>), kept as its response status.
\<close>

datatype exc_arg = Text string | Http int

text \<open>
  The six classes of the module, the built-in exceptions its code can raise, and
  \<^verbatim>\<open>googleapiclient.errors.HttpError\<close> with \<^verbatim>\<open>e.resp.status\<close>.
\<close>

datatype error =
    Error exc_arg
  | InvalidModuleError exc_arg
  | InvalidVersionError exc_arg
  | InvalidInstancesError exc_arg
  | UnexpectedStateError exc_arg
  | TransientError exc_arg
  | TypeError string
  | KeyError string
  | AttributeError string
  | IndexError string
  | HttpError int

text \<open>\<^verbatim>\<open>except errors.HttpError as e\<close>: the status when the exception is an HttpError.\<close>

fun http_status :: "error \<Rightarrow> int option" where
  "http_status (HttpError st) = Some st"
| "http_status e = None"

text \<open>
  \<^verbatim>\<open>_raise_error(e)\<close> always raises; the model returns the exception raised for the
  status \<^verbatim>\<open>e.resp.status\<close>.
\<close>

definition raise_error :: "int \<Rightarrow> error" where
  "raise_error st =
     (if st = 400 then InvalidInstancesError (Http st)
      else if st = 404 then InvalidVersionError (Http st)
      else if st \<ge> 500 then TransientError (Http st)
      else Error (Http st))"

subsection \<open>Python primitives used by the module\<close>

type_synonym environ = "string \<rightharpoonup> string"

text \<open>Truth value of a \<^verbatim>\<open>str\<close>-or-\<^verbatim>\<open>None\<close>: false for \<^verbatim>\<open>None\<close> and for the empty string.\<close>

fun truthy :: "string option \<Rightarrow> bool" where
  "truthy None = False"
| "truthy (Some s) = (s \<noteq> [])"

text \<open>\<^verbatim>\<open>a or b\<close>.\<close>

definition py_or :: "string option \<Rightarrow> string option \<Rightarrow> string option" where
  "py_or a b = (if truthy a then a else b)"

text \<open>\<^verbatim>\<open>s.split(c)\<close> for a one-character separator: never the empty list.\<close>

fun split_char :: "char \<Rightarrow> string \<Rightarrow> string list" where
  "split_char c [] = [[]]"
| "split_char c (x # xs) =
     (if x = c then [] # split_char c xs
      else (case split_char c xs of
              [] \<Rightarrow> [[x]]
            | p # ps \<Rightarrow> (x # p) # ps))"

text \<open>\<^verbatim>\<open>s.split(c, 1)\<close>: at most one split, at the first occurrence of the separator.\<close>

definition split_char_1 :: "char \<Rightarrow> string \<Rightarrow> string list" where
  "split_char_1 c s =
     (if c \<in> set s then [takeWhile (\<lambda>x. x \<noteq> c) s, tl (dropWhile (\<lambda>x. x \<noteq> c) s)]
      else [s])"

text \<open>\<^verbatim>\<open>xs[i]\<close> for a non-negative literal index: IndexError out of range.\<close>

definition subscript :: "'a list \<Rightarrow> nat \<Rightarrow> error + 'a" where
  "subscript xs i = (if i < length xs then Inr (xs ! i) else Inl (IndexError ''list index out of range''))"

text \<open>\<^verbatim>\<open>os.environ[k]\<close>: KeyError when the variable is not set.\<close>

definition environ_subscript :: "environ \<Rightarrow> string \<Rightarrow> error + string" where
  "environ_subscript env k = (case env k of None \<Rightarrow> Inl (KeyError k) | Some v \<Rightarrow> Inr v)"

text \<open>
  \<^verbatim>\<open>sep.join(parts)\<close> where a part may be \<^verbatim>\<open>None\<close>: TypeError at the first part that
  is not a string.
\<close>

fun join_strings :: "string \<Rightarrow> string list \<Rightarrow> string" where
  "join_strings sep [] = []"
| "join_strings sep [x] = x"
| "join_strings sep (x # y # ys) = x @ sep @ join_strings sep (y # ys)"

definition join :: "string \<Rightarrow> string option list \<Rightarrow> error + string" where
  "join sep parts =
     (if None \<in> set parts
      then Inl (TypeError ''sequence item: expected str instance, NoneType found'')
      else Inr (join_strings sep (map the parts)))"

subsection \<open>Identity resolution\<close>

definition get_project_id :: "environ \<Rightarrow> error + string" where
  "get_project_id env =
     (case py_or (env ''GAE_PROJECT'') (env ''GOOGLE_CLOUD_PROJECT'') of
        Some project_id \<Rightarrow> Inr project_id
      | None \<Rightarrow>
          (case env ''GAE_APPLICATION'' of
             None \<Rightarrow> Inl (AttributeError ''NoneType object has no attribute split'')
           | Some app_id \<Rightarrow> subscript (split_char_1 (CHR ''~'') app_id) 1))"

definition get_current_module_name :: "environ \<Rightarrow> string option" where
  "get_current_module_name env = py_or (env ''GAE_SERVICE'') (env ''CURRENT_MODULE_ID'')"

definition get_current_version_name :: "environ \<Rightarrow> error + string option" where
  "get_current_version_name env =
     (let result = env ''GAE_VERSION'' in
      if truthy result then Inr result
      else
        (case environ_subscript env ''CURRENT_VERSION_ID'' of
           Inl e \<Rightarrow> Inl e
         | Inr cvid \<Rightarrow>
             (case subscript (split_char (CHR ''.'') cvid) 0 of
                Inl e \<Rightarrow> Inl e
              | Inr result \<Rightarrow> Inr (if result = ''None'' then None else Some result))))"

definition get_current_instance_id :: "environ \<Rightarrow> string option" where
  "get_current_instance_id env = py_or (env ''GAE_INSTANCE'') (env ''INSTANCE_ID'')"

text \<open>
  \<^verbatim>\<open>if module is None: module = get_current_module_name()\<close> and
  \<^verbatim>\<open>if version is None: version = get_current_version_name()\<close>, the opening lines of
  every version-scoped operation.
\<close>

definition module_or_current :: "environ \<Rightarrow> string option \<Rightarrow> string option" where
  "module_or_current env module' =
     (case module' of None \<Rightarrow> get_current_module_name env | Some m \<Rightarrow> Some m)"

definition version_or_current :: "environ \<Rightarrow> string option \<Rightarrow> error + string option" where
  "version_or_current env version =
     (case version of None \<Rightarrow> get_current_version_name env | Some v \<Rightarrow> Inr (Some v))"

text \<open>
  \<^verbatim>\<open>if not module: module = os.environ.get('GAE_SERVICE', 'default')\<close>, the opening
  lines of the service-scoped operations.
\<close>

definition module_or_default :: "environ \<Rightarrow> string option \<Rightarrow> string" where
  "module_or_default env module' =
     (if truthy module' then the module'
      else (case env ''GAE_SERVICE'' of None \<Rightarrow> ''default'' | Some s \<Rightarrow> s))"

subsection \<open>The remote API and the world\<close>

text \<open>
  The JSON objects the remote API answers with, restricted to the keys the module reads;
  a missing key is \<open>None\<close>. An allocation map is a Python dict: an association list in
  iteration order. Weights are JSON numbers; they are only compared, so the rationals
  (which contain every finite float and every integer) stand for them.
\<close>

record traffic_split =
  split_allocations :: "(string \<times> rat) list option"

record manual_scaling =
  manualScaling_instances :: "int option"

record response =
  split :: "traffic_split option"
  manualScaling :: "manual_scaling option"
  defaultHostname :: "string option"

text \<open>The values the \<^verbatim>\<open>instances\<close> argument of the setter can be called with.\<close>

datatype pyval = PyNone | PyBool bool | PyInt int | PyFloat rat | PyStr string

text \<open>
  \<^verbatim>\<open>isinstance(x, six.integer_types)\<close>: \<^verbatim>\<open>int\<close> and its subclass \<^verbatim>\<open>bool\<close>.
\<close>

fun isinstance_integer_types :: "pyval \<Rightarrow> bool" where
  "isinstance_integer_types (PyInt n) = True"
| "isinstance_integer_types (PyBool b) = True"
| "isinstance_integer_types x = False"

text \<open>The bodies of the patch requests and the requests the module builds.\<close>

datatype body = ManualScaling pyval | ServingStatus string

datatype request =
    ServicesGet string "string option"
  | VersionsGet string "string option" "string option"
  | VersionsPatch string "string option" "string option" string body
  | AppsGet string

text \<open>
  A \<^verbatim>\<open>_ThreadedRpc\<close> object: the closure its thread runs (the three
  \<^verbatim>\<open>run_request\<close> closures differ only in the captured body and update mask), the
  captured exception and the \<^verbatim>\<open>done\<close> event.
\<close>

datatype target = RunRequest string "string option" "string option" body string

record threaded_rpc =
  rpc_target :: target
  rpc_exception :: "error option"
  rpc_done :: bool

text \<open>
  The world: how the remote API answers a request given the requests sent before it,
  the requests sent so far, and the \<^verbatim>\<open>_ThreadedRpc\<close> objects created so far (a handle
  is an index into this list).
\<close>

record world =
  remote :: "request list \<Rightarrow> request \<Rightarrow> error + response"
  sent :: "request list"
  rpcs :: "threaded_rpc list"

text \<open>
  \<^verbatim>\<open>discovery.build('appengine', 'v1')\<close>, building the request and
  \<^verbatim>\<open>request.execute()\<close>: the request is sent and the remote's answer returned or raised.
\<close>

definition execute :: "request \<Rightarrow> world \<Rightarrow> (error + response) \<times> world" where
  "execute req w = (remote w (sent w) req, w\<lparr>sent := sent w @ [req]\<rparr>)"

subsection \<open>Default version\<close>

text \<open>
  The loop of \<^verbatim>\<open>get_default_version\<close> over \<^verbatim>\<open>allocations.items()\<close>, with the loop
  variables \<^verbatim>\<open>maxAlloc\<close> and \<^verbatim>\<open>retVersion\<close> as arguments; it returns
  \<^verbatim>\<open>retVersion\<close>. Comparing a string with \<^verbatim>\<open>None\<close> (\<^verbatim>\<open>version < retVersion\<close> while
  \<^verbatim>\<open>retVersion\<close> is still \<^verbatim>\<open>None\<close>) raises TypeError.
\<close>

fun default_version_loop ::
  "(string \<times> rat) list \<Rightarrow> rat \<Rightarrow> string option \<Rightarrow> error + string option" where
  "default_version_loop [] maxAlloc retVersion = Inr retVersion"
| "default_version_loop ((version, allocation) # rest) maxAlloc retVersion =
     (if allocation = 1 then Inr (Some version)
      else if allocation > maxAlloc then default_version_loop rest allocation (Some version)
      else if allocation = maxAlloc then
        (case retVersion of
           None \<Rightarrow> Inl (TypeError ''< not supported between instances of str and NoneType'')
         | Some r \<Rightarrow>
             if version < r then default_version_loop rest maxAlloc (Some version)
             else default_version_loop rest maxAlloc retVersion)
      else default_version_loop rest maxAlloc retVersion)"

definition module_not_found :: "string \<Rightarrow> string" where
  "module_not_found module' = ''Module '' @ [CHR 0x27] @ module' @ [CHR 0x27] @ '' not found.''"

definition no_default_version :: "string \<Rightarrow> string" where
  "no_default_version module' =
     ''Could not determine default version for module '' @ [CHR 0x27] @ module' @ [CHR 0x27] @ ''.''"

definition get_default_version ::
  "environ \<Rightarrow> string option \<Rightarrow> world \<Rightarrow> (error + string) \<times> world" where
  "get_default_version env module_arg w =
     (let module' = module_or_default env module_arg in
      case get_project_id env of
        Inl e \<Rightarrow> (Inl e, w)
      | Inr project \<Rightarrow>
          (case execute (ServicesGet project (Some module')) w of
             (Inl e, w') \<Rightarrow>
               (case http_status e of
                  None \<Rightarrow> (Inl e, w')
                | Some st \<Rightarrow>
                    if st = 404 then (Inl (InvalidModuleError (Text (module_not_found module'))), w')
                    else (Inl (raise_error st), w'))
           | (Inr response, w') \<Rightarrow>
               (let allocations =
                      (case split response of None \<Rightarrow> None | Some s \<Rightarrow> split_allocations s);
                    looped =
                      (case allocations of
                         None \<Rightarrow> Inr None
                       | Some items \<Rightarrow>
                           if items \<noteq> [] then default_version_loop items (- 1) None
                           else Inr None)
                in case looped of
                     Inl e \<Rightarrow> (Inl e, w')
                   | Inr None \<Rightarrow>
                       (Inl (InvalidVersionError (Text (no_default_version module'))), w')
                   | Inr (Some retVersion) \<Rightarrow> (Inr retVersion, w'))))"

subsection \<open>Instance count\<close>

definition get_num_instances ::
  "environ \<Rightarrow> string option \<Rightarrow> string option \<Rightarrow> world \<Rightarrow> (error + int option) \<times> world" where
  "get_num_instances env module_arg version_arg w =
     (let module' = module_or_current env module_arg in
      case version_or_current env version_arg of
        Inl e \<Rightarrow> (Inl e, w)
      | Inr version \<Rightarrow>
          (case get_project_id env of
             Inl e \<Rightarrow> (Inl e, w)
           | Inr project_id \<Rightarrow>
               (case execute (VersionsGet project_id module' version) w of
                  (Inl e, w') \<Rightarrow>
                    (case http_status e of
                       None \<Rightarrow> (Inl e, w')
                     | Some st \<Rightarrow> (Inl (raise_error st), w'))
                | (Inr response, w') \<Rightarrow>
                    (case manualScaling response of
                       Some ms \<Rightarrow> (Inr (manualScaling_instances ms), w')
                     | None \<Rightarrow> (Inr (Some 0), w')))))"

subsection \<open>Patch requests and the threaded handle\<close>

definition admin_api_version_patch ::
  "string \<Rightarrow> string option \<Rightarrow> string option \<Rightarrow> body \<Rightarrow> string \<Rightarrow> world
     \<Rightarrow> (error + unit) \<times> world" where
  "admin_api_version_patch project_id module' version body update_mask w =
     (case execute (VersionsPatch project_id module' version update_mask body) w of
        (Inl e, w') \<Rightarrow> (Inl e, w')
      | (Inr response, w') \<Rightarrow> (Inr (), w'))"

text \<open>
  The closure \<^verbatim>\<open>run_request\<close> of the three asynchronous operations, applied to what
  it captured: an HttpError of the patch is translated by \<^verbatim>\<open>_raise_error\<close>, any other
  exception passes through.
\<close>

fun run_request :: "target \<Rightarrow> world \<Rightarrow> (error + unit) \<times> world" where
  "run_request (RunRequest project_id module' version body update_mask) w =
     (case admin_api_version_patch project_id module' version body update_mask w of
        (Inl e, w') \<Rightarrow>
          (case http_status e of
             None \<Rightarrow> (Inl e, w')
           | Some st \<Rightarrow> (Inl (raise_error st), w'))
      | (Inr u, w') \<Rightarrow> (Inr (), w'))"

text \<open>
  \<^verbatim>\<open>_ThreadedRpc.__init__\<close>: a new object, its exception \<^verbatim>\<open>None\<close> and its event not
  set, and a started thread that has not run yet. The handle returned is the index of
  the new object; every handle used below comes from here.
\<close>

definition threaded_rpc_init :: "target \<Rightarrow> world \<Rightarrow> nat \<times> world" where
  "threaded_rpc_init tgt w =
     (length (rpcs w),
      w\<lparr>rpcs := rpcs w @ [\<lparr>rpc_target = tgt, rpc_exception = None, rpc_done = False\<rparr>]\<rparr>)"

text \<open>
  \<^verbatim>\<open>_run_target\<close>, the body of the thread: run the target, capture any exception, set
  the event in every case.
\<close>

definition run_target :: "nat \<Rightarrow> world \<Rightarrow> world" where
  "run_target rpc w =
     (case run_request (rpc_target (rpcs w ! rpc)) w of
        (Inl e, w') \<Rightarrow>
          w'\<lparr>rpcs := (rpcs w')[rpc := (rpcs w' ! rpc)\<lparr>rpc_exception := Some e, rpc_done := True\<rparr>]\<rparr>
      | (Inr u, w') \<Rightarrow>
          w'\<lparr>rpcs := (rpcs w')[rpc := (rpcs w' ! rpc)\<lparr>rpc_done := True\<rparr>]\<rparr>)"

text \<open>
  \<^verbatim>\<open>wait\<close> returns once the event is set, that is, once the thread has run: in this
  sequential model a thread that has not run yet runs when it is waited for.
\<close>

definition wait :: "nat \<Rightarrow> world \<Rightarrow> world" where
  "wait rpc w = (if rpc_done (rpcs w ! rpc) then w else run_target rpc w)"

definition check_success :: "nat \<Rightarrow> world \<Rightarrow> error + unit" where
  "check_success rpc w =
     (case rpc_exception (rpcs w ! rpc) of Some e \<Rightarrow> Inl e | None \<Rightarrow> Inr ())"

definition get_result :: "nat \<Rightarrow> world \<Rightarrow> (error + unit) \<times> world" where
  "get_result rpc w =
     (let w' = wait rpc w in
      case check_success rpc w' of
        Inl e \<Rightarrow> (Inl e, w')
      | Inr u \<Rightarrow> (Inr (), w'))"

subsection \<open>Mutating operations\<close>

definition set_num_instances_async ::
  "environ \<Rightarrow> pyval \<Rightarrow> string option \<Rightarrow> string option \<Rightarrow> world \<Rightarrow> (error + nat) \<times> world" where
  "set_num_instances_async env instances module_arg version_arg w =
     (if \<not> isinstance_integer_types instances
      then (Inl (TypeError ''instances arg must be of type long or int.''), w)
      else
        (case get_project_id env of
           Inl e \<Rightarrow> (Inl e, w)
         | Inr project_id \<Rightarrow>
             (let module' = module_or_current env module_arg in
              case version_or_current env version_arg of
                Inl e \<Rightarrow> (Inl e, w)
              | Inr version \<Rightarrow>
                  (case threaded_rpc_init
                          (RunRequest project_id module' version (ManualScaling instances)
                             ''manualScaling.instances'') w of
                     (rpc, w') \<Rightarrow> (Inr rpc, w')))))"

definition set_num_instances ::
  "environ \<Rightarrow> pyval \<Rightarrow> string option \<Rightarrow> string option \<Rightarrow> world \<Rightarrow> (error + unit) \<times> world" where
  "set_num_instances env instances module_arg version_arg w =
     (case set_num_instances_async env instances module_arg version_arg w of
        (Inl e, w') \<Rightarrow> (Inl e, w')
      | (Inr rpc, w') \<Rightarrow> get_result rpc w')"

definition start_version_async ::
  "environ \<Rightarrow> string option \<Rightarrow> string option \<Rightarrow> world \<Rightarrow> (error + nat) \<times> world" where
  "start_version_async env module_arg version_arg w =
     (let module' = module_or_current env module_arg in
      case version_or_current env version_arg of
        Inl e \<Rightarrow> (Inl e, w)
      | Inr version \<Rightarrow>
          (case get_project_id env of
             Inl e \<Rightarrow> (Inl e, w)
           | Inr project_id \<Rightarrow>
               (case threaded_rpc_init
                       (RunRequest project_id module' version (ServingStatus ''SERVING'')
                          ''servingStatus'') w of
                  (rpc, w') \<Rightarrow> (Inr rpc, w'))))"

definition start_version ::
  "environ \<Rightarrow> string option \<Rightarrow> string option \<Rightarrow> world \<Rightarrow> (error + unit) \<times> world" where
  "start_version env module_arg version_arg w =
     (case start_version_async env module_arg version_arg w of
        (Inl e, w') \<Rightarrow> (Inl e, w')
      | (Inr rpc, w') \<Rightarrow> get_result rpc w')"

definition stop_version_async ::
  "environ \<Rightarrow> string option \<Rightarrow> string option \<Rightarrow> world \<Rightarrow> (error + nat) \<times> world" where
  "stop_version_async env module_arg version_arg w =
     (let module' = module_or_current env module_arg in
      case version_or_current env version_arg of
        Inl e \<Rightarrow> (Inl e, w)
      | Inr version \<Rightarrow>
          (case get_project_id env of
             Inl e \<Rightarrow> (Inl e, w)
           | Inr project_id \<Rightarrow>
               (case threaded_rpc_init
                       (RunRequest project_id module' version (ServingStatus ''STOPPED'')
                          ''servingStatus'') w of
                  (rpc, w') \<Rightarrow> (Inr rpc, w'))))"

definition stop_version ::
  "environ \<Rightarrow> string option \<Rightarrow> string option \<Rightarrow> world \<Rightarrow> (error + unit) \<times> world" where
  "stop_version env module_arg version_arg w =
     (case stop_version_async env module_arg version_arg w of
        (Inl e, w') \<Rightarrow> (Inl e, w')
      | (Inr rpc, w') \<Rightarrow> get_result rpc w')"

subsection \<open>Hostnames\<close>

definition construct_hostname ::
  "string option \<Rightarrow> string option \<Rightarrow> string option \<Rightarrow> string option \<Rightarrow> error + string" where
  "construct_hostname instance version module' default_hostname =
     (let hostname_parts = [];
          hostname_parts = (if truthy instance then hostname_parts @ [instance] else hostname_parts);
          hostname_parts = hostname_parts @ [version];
          hostname_parts = hostname_parts @ [module'];
          hostname_parts = hostname_parts @ [default_hostname]
      in join ''.'' hostname_parts)"

definition get_hostname ::
  "environ \<Rightarrow> string option \<Rightarrow> string option \<Rightarrow> string option \<Rightarrow> world
     \<Rightarrow> (error + string) \<times> world" where
  "get_hostname env module_arg version_arg instance w =
     (let module' = module_or_current env module_arg in
      case version_or_current env version_arg of
        Inl e \<Rightarrow> (Inl e, w)
      | Inr version \<Rightarrow>
          (case get_project_id env of
             Inl e \<Rightarrow> (Inl e, w)
           | Inr project \<Rightarrow>
               (case execute (AppsGet project) w of
                  (Inl e, w') \<Rightarrow> (Inl e, w')
                | (Inr response, w') \<Rightarrow>
                    (construct_hostname instance version module' (defaultHostname response), w'))))"

subsection \<open>The synchronous form, as specified\<close>

text \<open>
  The specification words the synchronous form of a mutating operation as: invoke the
  asynchronous form, then wait for the handle and unwrap its result, which re-raises a
  captured failure and otherwise returns no value. This definition follows those
  words; \<open>set_num_instances\<close>, \<open>start_version\<close> and \<open>stop_version\<close> above follow the
  source.
\<close>

definition await_and_unwrap ::
  "(world \<Rightarrow> (error + nat) \<times> world) \<Rightarrow> world \<Rightarrow> (error + unit) \<times> world" where
  "await_and_unwrap async w =
     (case async w of
        (Inl e, w1) \<Rightarrow> (Inl e, w1)
      | (Inr rpc, w1) \<Rightarrow>
          (let w2 = wait rpc w1 in
           case rpc_exception (rpcs w2 ! rpc) of
             Some e \<Rightarrow> (Inl e, w2)
           | None \<Rightarrow> (Inr (), w2)))"

subsection \<open>Fixtures of the test suite\<close>

text \<open>
  The environment that \<^verbatim>\<open>setUp\<close> of \<^verbatim>\<open>modules_test.py\<close> installs, a world whose
  remote gives one fixed answer to every request (the mocked client), and the service
  object carrying a given allocation map.
\<close>

definition setUp_environ :: environ where
  "setUp_environ =
     [''GAE_APPLICATION'' \<mapsto> ''s~project'',
      ''GOOGLE_CLOUD_PROJECT'' \<mapsto> ''project'',
      ''GAE_SERVICE'' \<mapsto> ''default'',
      ''GAE_VERSION'' \<mapsto> ''v1'',
      ''CURRENT_MODULE_ID'' \<mapsto> ''default'',
      ''CURRENT_VERSION_ID'' \<mapsto> ''v1.123'']"

definition mock_world :: "(error + response) \<Rightarrow> world" where
  "mock_world answer = \<lparr>remote = (\<lambda>before req. answer), sent = [], rpcs = []\<rparr>"

definition service_response :: "(string \<times> rat) list \<Rightarrow> response" where
  "service_response items =
     \<lparr>split = Some \<lparr>split_allocations = Some items\<rparr>, manualScaling = None,
      defaultHostname = None\<rparr>"

section \<open>Properties\<close>

lemma split_char_nonempty: "split_char c s \<noteq> []"
  by (induction s) (auto split: list.splits)

subsection \<open>The scan of the allocation map\<close>

text \<open>
  The scan starts from \<^verbatim>\<open>maxAlloc = -1\<close> and \<^verbatim>\<open>retVersion = None\<close>. While every weight
  exceeds that initial maximum, the first entry replaces \<^verbatim>\<open>None\<close> and the comparison of
  a name with \<^verbatim>\<open>None\<close> is never reached.
\<close>

lemma loop_reaches_one:
  assumes "(v, 1) \<in> set items" and "\<forall>(u, a) \<in> set items. - 1 < a"
    and "retVersion = None \<longrightarrow> maxAlloc \<le> - 1"
  shows "\<exists>v'. default_version_loop items maxAlloc retVersion = Inr (Some v') \<and> (v', 1) \<in> set items"
  using assms
proof (induction items arbitrary: maxAlloc retVersion)
  case Nil
  then show ?case by simp
next
  case (Cons x items)
  obtain version allocation where x: "x = (version, allocation)" by (cases x)
  show ?case
  proof (cases "allocation = 1")
    case True
    then show ?thesis using x by auto
  next
    case False
    with Cons.prems x have mem: "(v, 1) \<in> set items" by auto
    from Cons.prems x have pos: "\<forall>(u, a) \<in> set items. - 1 < a" and a: "- 1 < allocation" by auto
    have step: "\<And>m r. (r = None \<longrightarrow> m \<le> - 1) \<Longrightarrow>
        \<exists>v'. default_version_loop items m r = Inr (Some v') \<and> (v', 1) \<in> set (x # items)"
      using Cons.IH [OF mem pos] by fastforce
    show ?thesis
    proof (cases retVersion)
      case None
      with Cons.prems a have "allocation > maxAlloc" by simp
      then show ?thesis using False x step [of "Some version" allocation] by simp
    next
      case (Some r)
      then show ?thesis
        using False x step [of "Some version" allocation] step [of "Some version" maxAlloc]
          step [of "Some r" maxAlloc]
        by simp
    qed
  qed
qed

lemma loop_keeps_best:
  assumes "\<forall>(u, a) \<in> set items. a \<noteq> 1"
  shows "\<exists>r' m'. default_version_loop items m (Some r) = Inr (Some r')
           \<and> ((r', m') = (r, m) \<or> (r', m') \<in> set items)
           \<and> m \<le> m' \<and> (m' = m \<longrightarrow> r' \<le> r)
           \<and> (\<forall>(u, a) \<in> set items. a \<le> m' \<and> (a = m' \<longrightarrow> r' \<le> u))"
  using assms
proof (induction items arbitrary: m r)
  case Nil
  then show ?case by simp
next
  case (Cons x items)
  obtain version allocation where x: "x = (version, allocation)" by (cases x)
  from Cons.prems x have ne: "allocation \<noteq> 1" and rest: "\<forall>(u, a) \<in> set items. a \<noteq> 1" by auto
  consider (gt) "allocation > m" | (eq_lt) "allocation = m" "version < r"
    | (eq_ge) "allocation = m" "\<not> version < r" | (lt) "allocation < m"
    by fastforce
  then show ?case
  proof cases
    case gt
    from Cons.IH [OF rest, of allocation version] obtain r' m' where
      h: "default_version_loop items allocation (Some version) = Inr (Some r')"
         "(r', m') = (version, allocation) \<or> (r', m') \<in> set items"
         "allocation \<le> m'" "m' = allocation \<longrightarrow> r' \<le> version"
         "\<forall>(u, a) \<in> set items. a \<le> m' \<and> (a = m' \<longrightarrow> r' \<le> u)"
      by blast
    show ?thesis
      apply (rule exI [of _ r'], rule exI [of _ m'])
      using gt ne x h by auto
  next
    case eq_lt
    from Cons.IH [OF rest, of m version] obtain r' m' where
      h: "default_version_loop items m (Some version) = Inr (Some r')"
         "(r', m') = (version, m) \<or> (r', m') \<in> set items"
         "m \<le> m'" "m' = m \<longrightarrow> r' \<le> version"
         "\<forall>(u, a) \<in> set items. a \<le> m' \<and> (a = m' \<longrightarrow> r' \<le> u)"
      by blast
    show ?thesis
      apply (rule exI [of _ r'], rule exI [of _ m'])
      using eq_lt ne x h by auto
  next
    case eq_ge
    from Cons.IH [OF rest, of m r] obtain r' m' where
      h: "default_version_loop items m (Some r) = Inr (Some r')"
         "(r', m') = (r, m) \<or> (r', m') \<in> set items"
         "m \<le> m'" "m' = m \<longrightarrow> r' \<le> r"
         "\<forall>(u, a) \<in> set items. a \<le> m' \<and> (a = m' \<longrightarrow> r' \<le> u)"
      by blast
    show ?thesis
      apply (rule exI [of _ r'], rule exI [of _ m'])
      using eq_ge ne x h by auto
  next
    case lt
    from Cons.IH [OF rest, of m r] obtain r' m' where
      h: "default_version_loop items m (Some r) = Inr (Some r')"
         "(r', m') = (r, m) \<or> (r', m') \<in> set items"
         "m \<le> m'" "m' = m \<longrightarrow> r' \<le> r"
         "\<forall>(u, a) \<in> set items. a \<le> m' \<and> (a = m' \<longrightarrow> r' \<le> u)"
      by blast
    show ?thesis
      apply (rule exI [of _ r'], rule exI [of _ m'])
      using lt ne x h by auto
  qed
qed

lemma loop_selects_maximum:
  assumes "items \<noteq> []" and "\<forall>(u, a) \<in> set items. - 1 < a \<and> a \<noteq> 1"
  shows "\<exists>v m. default_version_loop items (- 1) None = Inr (Some v) \<and> (v, m) \<in> set items
           \<and> (\<forall>(u, a) \<in> set items. a \<le> m \<and> (a = m \<longrightarrow> v \<le> u))"
proof -
  from assms(1) obtain version allocation rest where items: "items = (version, allocation) # rest"
    by (cases items) auto
  with assms(2) have a: "- 1 < allocation" "allocation \<noteq> 1"
    and rest: "\<forall>(u, a) \<in> set rest. a \<noteq> 1" by auto
  from loop_keeps_best [OF rest, of allocation version] obtain r' m' where
    h: "default_version_loop rest allocation (Some version) = Inr (Some r')"
       "(r', m') = (version, allocation) \<or> (r', m') \<in> set rest"
       "allocation \<le> m'" "m' = allocation \<longrightarrow> r' \<le> version"
       "\<forall>(u, a) \<in> set rest. a \<le> m' \<and> (a = m' \<longrightarrow> r' \<le> u)"
    by blast
  show ?thesis
    apply (rule exI [of _ r'], rule exI [of _ m'])
    using a items h by auto
qed

text \<open>
  A weight equal to the initial maximum, met before any greater one, is where the scan
  compares a name with \<^verbatim>\<open>None\<close>; the remote API sends no such weight.
\<close>

lemma scan_sentinel_weight:
  "default_version_loop [(''a'', - 1), (''b'', 1)] (- 1) None
     = Inl (TypeError ''< not supported between instances of str and NoneType'')"
  by simp

subsection \<open>The fixtures\<close>

lemma setUp_project: "get_project_id setUp_environ = Inr ''project''"
  by (simp add: get_project_id_def setUp_environ_def py_or_def)

lemma setUp_module_default: "module_or_default setUp_environ None = ''default''"
  by (simp add: module_or_default_def setUp_environ_def)

lemma setUp_version: "version_or_current setUp_environ None = Inr (Some ''v1'')"
  by (simp add: version_or_current_def get_current_version_name_def setUp_environ_def)

lemma setUp_module: "module_or_current setUp_environ None = Some ''default''"
  by (simp add: module_or_current_def get_current_module_name_def py_or_def setUp_environ_def)

lemma setUp_version_given: "version_or_current setUp_environ (Some v) = Inr (Some v)"
  by (simp add: version_or_current_def)

lemma setUp_module_given: "module_or_default setUp_environ (Some ''foo'') = ''foo''"
  by (simp add: module_or_default_def)

lemma mock_answer: "remote (mock_world answer) before req = answer"
  by (simp add: mock_world_def)

subsection \<open>Default-version selection\<close>

text \<open>
  Once the service object has been fetched and carries a non-empty allocation map, the
  result of \<^verbatim>\<open>get_default_version\<close> is decided by the scan alone.
\<close>

lemma fetched_allocations:
  assumes "get_project_id env = Inr project"
    and "remote w (sent w) (ServicesGet project (Some (module_or_default env module_arg))) = Inr response"
    and "split response = Some s" and "split_allocations s = Some items" and "items \<noteq> []"
  shows "fst (get_default_version env module_arg w) =
           (case default_version_loop items (- 1) None of
              Inl e \<Rightarrow> Inl e
            | Inr None \<Rightarrow> Inl (InvalidVersionError (Text (no_default_version (module_or_default env module_arg))))
            | Inr (Some retVersion) \<Rightarrow> Inr retVersion)"
  using assms
  by (simp add: get_default_version_def execute_def Let_def split: sum.splits option.splits)

text \<open>
  C1. When the fetched allocation map has an entry of weight exactly 1.0,
  \<^verbatim>\<open>get_default_version\<close> returns the name of a version of weight 1.0, whatever the other
  entries and whatever the order of iteration (the map is any list of entries). Weights
  are the traffic fractions of the data model, which lie in [0,1]; the proof needs of
  them only that each exceeds the initial \<^verbatim>\<open>maxAlloc\<close> of -1.
\<close>

theorem default_version_full_weight:
  assumes "get_project_id env = Inr project"
    and "remote w (sent w) (ServicesGet project (Some (module_or_default env module_arg))) = Inr response"
    and "split response = Some s" and "split_allocations s = Some items"
    and "(v, 1) \<in> set items" and "\<forall>(u, a) \<in> set items. - 1 < a"
  shows "\<exists>v'. fst (get_default_version env module_arg w) = Inr v' \<and> (v', 1) \<in> set items"
proof -
  from assms(5) have ne: "items \<noteq> []" by auto
  from loop_reaches_one [OF assms(5) assms(6), of None "- 1"] obtain v' where
    "default_version_loop items (- 1) None = Inr (Some v')" "(v', 1) \<in> set items" by auto
  then show ?thesis
    using fetched_allocations [OF assms(1-4) ne] by simp
qed

theorem default_version_full_weight_witness:
  "\<exists>v'. fst (get_default_version setUp_environ None
             (mock_world (Inr (service_response [(''v1'', 0), (''v3'', 1), (''v2'', 1)])))) = Inr v'
        \<and> (v', 1) \<in> set [(''v1'', 0), (''v3'', 1), (''v2'', 1 :: rat)]"
  by (rule default_version_full_weight [where project = "''project''" and v = "''v3''"
        and response = "service_response [(''v1'', 0), (''v3'', 1), (''v2'', 1)]"
        and s = "\<lparr>split_allocations = Some [(''v1'', 0), (''v3'', 1), (''v2'', 1)]\<rparr>"])
     (simp_all add: setUp_project mock_world_def service_response_def)

text \<open>
  C2. When the fetched allocation map is not empty and has no entry of weight 1.0,
  \<^verbatim>\<open>get_default_version\<close> returns a name \<open>v\<close> of the map whose weight \<open>m\<close> is the
  maximum of all weights, and \<open>v\<close> is the least name, in the lexicographic order of
  strings, among the entries of weight \<open>m\<close>. Weights are as in C1.
\<close>

theorem default_version_maximum:
  assumes "get_project_id env = Inr project"
    and "remote w (sent w) (ServicesGet project (Some (module_or_default env module_arg))) = Inr response"
    and "split response = Some s" and "split_allocations s = Some items"
    and "items \<noteq> []" and "\<forall>(u, a) \<in> set items. - 1 < a \<and> a \<noteq> 1"
  shows "\<exists>v m. fst (get_default_version env module_arg w) = Inr v \<and> (v, m) \<in> set items
           \<and> (\<forall>(u, a) \<in> set items. a \<le> m \<and> (a = m \<longrightarrow> v \<le> u))"
proof -
  from loop_selects_maximum [OF assms(5) assms(6)] obtain v m where
    h: "default_version_loop items (- 1) None = Inr (Some v)" "(v, m) \<in> set items"
       "\<forall>(u, a) \<in> set items. a \<le> m \<and> (a = m \<longrightarrow> v \<le> u)" by blast
  from h(1) have "fst (get_default_version env module_arg w) = Inr v"
    using fetched_allocations [OF assms(1-5)] by simp
  with h(2,3) show ?thesis by blast
qed

theorem default_version_maximum_witness:
  "\<exists>v m. fst (get_default_version setUp_environ None
             (mock_world (Inr (service_response [(''v2-beta'', 1/2), (''v1-stable'', 1/2)])))) = Inr v
        \<and> (v, m) \<in> set [(''v2-beta'', 1/2), (''v1-stable'', 1/2 :: rat)]
        \<and> (\<forall>(u, a) \<in> set [(''v2-beta'', 1/2), (''v1-stable'', 1/2 :: rat)]. a \<le> m \<and> (a = m \<longrightarrow> v \<le> u))"
  by (rule default_version_maximum [where project = "''project''"
        and response = "service_response [(''v2-beta'', 1/2), (''v1-stable'', 1/2)]"
        and s = "\<lparr>split_allocations = Some [(''v2-beta'', 1/2), (''v1-stable'', 1/2)]\<rparr>"])
     (simp_all add: setUp_project mock_world_def service_response_def)

text \<open>
  C3. When the fetched service object has no \<^verbatim>\<open>split\<close>, or a \<^verbatim>\<open>split\<close> without
  \<^verbatim>\<open>allocations\<close>, or an empty allocation map, \<^verbatim>\<open>get_default_version\<close> raises
  InvalidVersionError with the message that no default version could be determined, and
  so returns no name.
\<close>

theorem default_version_undeterminable:
  assumes "get_project_id env = Inr project"
    and "remote w (sent w) (ServicesGet project (Some (module_or_default env module_arg))) = Inr response"
    and "split response = None
         \<or> (\<exists>s. split response = Some s
                \<and> (split_allocations s = None \<or> split_allocations s = Some []))"
  shows "fst (get_default_version env module_arg w) =
           Inl (InvalidVersionError (Text (no_default_version (module_or_default env module_arg))))"
  using assms
  by (auto simp add: get_default_version_def execute_def Let_def)

theorem default_version_undeterminable_witness:
  "fst (get_default_version setUp_environ None
          (mock_world (Inr \<lparr>split = None, manualScaling = None, defaultHostname = None\<rparr>))) =
     Inl (InvalidVersionError (Text (no_default_version ''default'')))
   \<and> fst (get_default_version setUp_environ None (mock_world (Inr (service_response [])))) =
     Inl (InvalidVersionError (Text (no_default_version ''default'')))"
proof -
  have missing: "fst (get_default_version setUp_environ None
          (mock_world (Inr \<lparr>split = None, manualScaling = None, defaultHostname = None\<rparr>))) =
     Inl (InvalidVersionError (Text (no_default_version (module_or_default setUp_environ None))))"
    by (rule default_version_undeterminable [where project = "''project''"
          and response = "\<lparr>split = None, manualScaling = None, defaultHostname = None\<rparr>"])
       (simp_all add: setUp_project mock_world_def)
  have empty: "fst (get_default_version setUp_environ None (mock_world (Inr (service_response [])))) =
     Inl (InvalidVersionError (Text (no_default_version (module_or_default setUp_environ None))))"
    by (rule default_version_undeterminable [where project = "''project''"
          and response = "service_response []"])
       (simp_all add: setUp_project mock_world_def service_response_def)
  from missing empty show ?thesis by (simp add: setUp_module_default)
qed

subsection \<open>Identity resolution\<close>

text \<open>
  The first element of \<^verbatim>\<open>s.split('.')\<close> is the part of \<open>s\<close> before its first dot, so
  the fallback of \<^verbatim>\<open>get_current_version_name\<close> returns that part of
  \<^verbatim>\<open>CURRENT_VERSION_ID\<close>, or \<^verbatim>\<open>None\<close> when the part is the string \<^verbatim>\<open>None\<close>.
\<close>

lemma version_prefix:
  "subscript (split_char c s) 0 = Inr (takeWhile (\<lambda>x. x \<noteq> c) s)"
  by (induction s) (auto simp add: subscript_def split: list.splits)

lemma version_name_fallback:
  assumes "\<not> truthy (env ''GAE_VERSION'')" and "env ''CURRENT_VERSION_ID'' = Some s"
  shows "get_current_version_name env =
           Inr (if takeWhile (\<lambda>x. x \<noteq> CHR ''.'') s = ''None'' then None
                else Some (takeWhile (\<lambda>x. x \<noteq> CHR ''.'') s))"
  using assms
  by (simp add: get_current_version_name_def environ_subscript_def version_prefix)

text \<open>
  C4. With the primary variable \<^verbatim>\<open>GAE_VERSION\<close> absent and \<^verbatim>\<open>CURRENT_VERSION_ID\<close> set
  to \<^verbatim>\<open>v3.456\<close>, \<^verbatim>\<open>get_current_version_name\<close> returns \<^verbatim>\<open>v3\<close>, the part before the
  first dot; with \<^verbatim>\<open>CURRENT_VERSION_ID\<close> set to \<^verbatim>\<open>None.456\<close> it returns \<^verbatim>\<open>None\<close>. The
  other variables are arbitrary.
\<close>

theorem version_from_composite_identifier:
  "get_current_version_name (env(''GAE_VERSION'' := None, ''CURRENT_VERSION_ID'' \<mapsto> ''v3.456''))
     = Inr (Some ''v3'')
   \<and> get_current_version_name (env(''GAE_VERSION'' := None, ''CURRENT_VERSION_ID'' \<mapsto> ''None.456''))
     = Inr None"
  by (simp add: get_current_version_name_def environ_subscript_def subscript_def)

text \<open>
  C5, as stated: identity resolution never fails, whatever the environment. With no
  variable set, \<^verbatim>\<open>os.environ['CURRENT_VERSION_ID']\<close> raises KeyError.
\<close>

theorem identity_resolution_unset_counterexample:
  "get_current_version_name Map.empty = Inl (KeyError ''CURRENT_VERSION_ID'')"
  by (simp add: get_current_version_name_def environ_subscript_def)

text \<open>
  C5, amended: for every environment \<^verbatim>\<open>get_current_module_name\<close> and
  \<^verbatim>\<open>get_current_instance_id\<close> return the value of one of their two variables (which may
  be absent), and \<^verbatim>\<open>get_current_version_name\<close> returns without raising whenever
  \<^verbatim>\<open>GAE_VERSION\<close> is set to a non-empty string or \<^verbatim>\<open>CURRENT_VERSION_ID\<close> is set.
\<close>

theorem identity_resolution:
  "get_current_module_name env \<in> {env ''GAE_SERVICE'', env ''CURRENT_MODULE_ID''}
   \<and> get_current_instance_id env \<in> {env ''GAE_INSTANCE'', env ''INSTANCE_ID''}
   \<and> (truthy (env ''GAE_VERSION'') \<or> env ''CURRENT_VERSION_ID'' \<noteq> None
        \<longrightarrow> (\<exists>r. get_current_version_name env = Inr r))"
  using split_char_nonempty [of "CHR ''.''"]
  by (auto simp add: get_current_module_name_def get_current_instance_id_def py_or_def
        get_current_version_name_def environ_subscript_def subscript_def Let_def
      split: option.splits sum.splits)

theorem identity_resolution_witness:
  "get_current_module_name setUp_environ \<in> {Some ''default''}
   \<and> get_current_instance_id setUp_environ \<in> {None}
   \<and> (\<exists>r. get_current_version_name setUp_environ = Inr r)"
  using identity_resolution [of setUp_environ]
  by (simp add: setUp_environ_def)

subsection \<open>Hostname construction\<close>

text \<open>
  C6. \<^verbatim>\<open>_construct_hostname\<close> joins the instance (when there is one), the version, the
  module and the default hostname with dots, in this order, and leaves the instance
  segment out when the instance is absent; in particular for the instance \<^verbatim>\<open>i\<close>, the
  version \<^verbatim>\<open>v1\<close>, the module \<^verbatim>\<open>default\<close> and the default hostname
  \<^verbatim>\<open>project.appspot.com\<close>.
\<close>

theorem hostname_parts_joined:
  "construct_hostname (Some (c # i)) (Some v) (Some m) (Some d)
     = Inr ((c # i) @ ''.'' @ v @ ''.'' @ m @ ''.'' @ d)
   \<and> construct_hostname None (Some v) (Some m) (Some d) = Inr (v @ ''.'' @ m @ ''.'' @ d)
   \<and> construct_hostname (Some ''i'') (Some ''v1'') (Some ''default'') (Some ''project.appspot.com'')
     = Inr ''i.v1.default.project.appspot.com''
   \<and> construct_hostname None (Some ''v1'') (Some ''default'') (Some ''project.appspot.com'')
     = Inr ''v1.default.project.appspot.com''"
  by (simp add: construct_hostname_def join_def)

subsection \<open>The threaded handle\<close>

text \<open>
  Retrieving the result of a freshly created handle runs the patch request once: the
  outcome is the remote's answer with an HttpError translated, one request has been
  sent, and the handle is done and holds the exception, if any.
\<close>

lemma run_request_outcome:
  "fst (run_request (RunRequest p m v b um) w) =
     (case remote w (sent w) (VersionsPatch p m v um b) of
        Inl e \<Rightarrow> Inl (case http_status e of None \<Rightarrow> e | Some st \<Rightarrow> raise_error st)
      | Inr response \<Rightarrow> Inr ())"
  by (simp add: admin_api_version_patch_def execute_def split: sum.splits option.splits)

lemma run_request_world:
  "snd (run_request (RunRequest p m v b um) w) = w\<lparr>sent := sent w @ [VersionsPatch p m v um b]\<rparr>"
  by (simp add: admin_api_version_patch_def execute_def split: sum.splits option.splits)

lemma get_result_new_rpc:
  assumes "threaded_rpc_init (RunRequest p m v b um) w = (rpc, w1)"
  shows "fst (get_result rpc w1) =
     (case remote w (sent w) (VersionsPatch p m v um b) of
        Inl e \<Rightarrow> Inl (case http_status e of None \<Rightarrow> e | Some st \<Rightarrow> raise_error st)
      | Inr response \<Rightarrow> Inr ())"
proof -
  from assms have rpc: "rpc = length (rpcs w)"
    and w1: "w1 = w\<lparr>rpcs := rpcs w @ [\<lparr>rpc_target = RunRequest p m v b um, rpc_exception = None, rpc_done = False\<rparr>]\<rparr>"
    by (auto simp add: threaded_rpc_init_def)
  show ?thesis
    unfolding rpc w1
    by (simp add: get_result_def wait_def run_target_def check_success_def
          admin_api_version_patch_def execute_def Let_def
        split: sum.splits option.splits)
qed

lemma get_result_new_rpc_world:
  assumes "threaded_rpc_init (RunRequest p m v b um) w = (rpc, w1)"
  shows "snd (get_result rpc w1) =
     w\<lparr>sent := sent w @ [VersionsPatch p m v um b],
        rpcs := rpcs w @
          [\<lparr>rpc_target = RunRequest p m v b um,
            rpc_exception =
              (case remote w (sent w) (VersionsPatch p m v um b) of
                 Inl e \<Rightarrow> Some (case http_status e of None \<Rightarrow> e | Some st \<Rightarrow> raise_error st)
               | Inr response \<Rightarrow> None),
            rpc_done = True\<rparr>]\<rparr>"
proof -
  from assms have rpc: "rpc = length (rpcs w)"
    and w1: "w1 = w\<lparr>rpcs := rpcs w @ [\<lparr>rpc_target = RunRequest p m v b um, rpc_exception = None, rpc_done = False\<rparr>]\<rparr>"
    by (auto simp add: threaded_rpc_init_def)
  show ?thesis
    unfolding rpc w1
    by (simp add: get_result_def wait_def run_target_def check_success_def
          admin_api_version_patch_def execute_def Let_def
        split: sum.splits option.splits)
qed

lemma wait_idempotent:
  assumes "threaded_rpc_init (RunRequest p m v b um) w = (rpc, w1)"
  shows "wait rpc (wait rpc w1) = wait rpc w1"
proof -
  from assms have rpc: "rpc = length (rpcs w)"
    and w1: "w1 = w\<lparr>rpcs := rpcs w @ [\<lparr>rpc_target = RunRequest p m v b um, rpc_exception = None, rpc_done = False\<rparr>]\<rparr>"
    by (auto simp add: threaded_rpc_init_def)
  show ?thesis
    unfolding rpc w1
    by (simp add: wait_def run_target_def 
          admin_api_version_patch_def execute_def Let_def
        split: sum.splits option.splits)
qed

lemma stop_version_outcome:
  assumes "get_project_id env = Inr project" and "version_or_current env version_arg = Inr version"
  shows "fst (stop_version env module_arg version_arg w) =
     (case remote w (sent w) (VersionsPatch project (module_or_current env module_arg) version
                               ''servingStatus'' (ServingStatus ''STOPPED'')) of
        Inl e \<Rightarrow> Inl (case http_status e of None \<Rightarrow> e | Some st \<Rightarrow> raise_error st)
      | Inr response \<Rightarrow> Inr ())"
  using assms
  by (simp add: stop_version_def stop_version_async_def Let_def get_result_new_rpc split: prod.splits)

lemma start_version_outcome:
  assumes "get_project_id env = Inr project" and "version_or_current env version_arg = Inr version"
  shows "fst (start_version env module_arg version_arg w) =
     (case remote w (sent w) (VersionsPatch project (module_or_current env module_arg) version
                               ''servingStatus'' (ServingStatus ''SERVING'')) of
        Inl e \<Rightarrow> Inl (case http_status e of None \<Rightarrow> e | Some st \<Rightarrow> raise_error st)
      | Inr response \<Rightarrow> Inr ())"
  using assms
  by (simp add: start_version_def start_version_async_def Let_def get_result_new_rpc split: prod.splits)

lemma set_num_instances_outcome:
  assumes "get_project_id env = Inr project" and "version_or_current env version_arg = Inr version"
    and "isinstance_integer_types instances"
  shows "fst (set_num_instances env instances module_arg version_arg w) =
     (case remote w (sent w) (VersionsPatch project (module_or_current env module_arg) version
                               ''manualScaling.instances'' (ManualScaling instances)) of
        Inl e \<Rightarrow> Inl (case http_status e of None \<Rightarrow> e | Some st \<Rightarrow> raise_error st)
      | Inr response \<Rightarrow> Inr ())"
  using assms
  by (simp add: set_num_instances_def set_num_instances_async_def Let_def get_result_new_rpc split: prod.splits)

lemma get_num_instances_failure:
  assumes "get_project_id env = Inr project" and "version_or_current env version_arg = Inr version"
    and "remote w (sent w) (VersionsGet project (module_or_current env module_arg) version) = Inl (HttpError st)"
  shows "fst (get_num_instances env module_arg version_arg w) = Inl (raise_error st)"
  using assms by (simp add: get_num_instances_def execute_def Let_def)

lemma get_default_version_failure:
  assumes "get_project_id env = Inr project"
    and "remote w (sent w) (ServicesGet project (Some (module_or_default env module_arg))) = Inl (HttpError st)"
  shows "fst (get_default_version env module_arg w) =
           Inl (if st = 404 then InvalidModuleError (Text (module_not_found (module_or_default env module_arg)))
                else raise_error st)"
  using assms by (simp add: get_default_version_def execute_def Let_def)

subsection \<open>Translation of HTTP failures\<close>

text \<open>
  C7. An HttpError of status \<open>st\<close> raised by the request of an operation is translated:
  on the service-get request of \<^verbatim>\<open>get_default_version\<close> a 404 becomes
  InvalidModuleError with the message naming the requested module; on the version-get
  request of \<^verbatim>\<open>get_num_instances\<close> and on the version-patch requests of
  \<^verbatim>\<open>set_num_instances\<close>, \<^verbatim>\<open>start_version\<close> and \<^verbatim>\<open>stop_version\<close> the error is that of
  \<^verbatim>\<open>_raise_error\<close>, as it is for the other statuses of the service-get request: 404 is
  InvalidVersionError, 400 is InvalidInstancesError, a status of 500 or more is
  TransientError, and any other status is the base Error.
\<close>

theorem http_failures_translated:
  assumes "get_project_id env = Inr project" and "version_or_current env version_arg = Inr version"
    and "isinstance_integer_types instances"
  shows
    "(remote w (sent w) (ServicesGet project (Some (module_or_default env module_arg))) = Inl (HttpError st)
        \<longrightarrow> fst (get_default_version env module_arg w) =
              Inl (if st = 404
                   then InvalidModuleError (Text (module_not_found (module_or_default env module_arg)))
                   else raise_error st))
     \<and> (remote w (sent w) (VersionsGet project (module_or_current env module_arg) version) = Inl (HttpError st)
        \<longrightarrow> fst (get_num_instances env module_arg version_arg w) = Inl (raise_error st))
     \<and> (remote w (sent w) (VersionsPatch project (module_or_current env module_arg) version
                              ''manualScaling.instances'' (ManualScaling instances)) = Inl (HttpError st)
        \<longrightarrow> fst (set_num_instances env instances module_arg version_arg w) = Inl (raise_error st))
     \<and> (remote w (sent w) (VersionsPatch project (module_or_current env module_arg) version
                              ''servingStatus'' (ServingStatus ''SERVING'')) = Inl (HttpError st)
        \<longrightarrow> fst (start_version env module_arg version_arg w) = Inl (raise_error st))
     \<and> (remote w (sent w) (VersionsPatch project (module_or_current env module_arg) version
                              ''servingStatus'' (ServingStatus ''STOPPED'')) = Inl (HttpError st)
        \<longrightarrow> fst (stop_version env module_arg version_arg w) = Inl (raise_error st))
     \<and> raise_error 404 = InvalidVersionError (Http 404)
     \<and> raise_error 400 = InvalidInstancesError (Http 400)
     \<and> (500 \<le> st \<longrightarrow> raise_error st = TransientError (Http st))
     \<and> (st \<noteq> 400 \<and> st \<noteq> 404 \<and> st < 500 \<longrightarrow> raise_error st = Error (Http st))"
  using assms
  by (simp add: get_default_version_failure get_num_instances_failure set_num_instances_outcome
        start_version_outcome stop_version_outcome raise_error_def)

theorem http_failures_translated_witness:
  "fst (get_default_version setUp_environ (Some ''foo'') (mock_world (Inl (HttpError 404))))
     = Inl (InvalidModuleError (Text (module_not_found ''foo'')))
   \<and> fst (get_num_instances setUp_environ (Some ''foo'') (Some ''v-bad'') (mock_world (Inl (HttpError 404))))
     = Inl (InvalidVersionError (Http 404))
   \<and> fst (start_version setUp_environ (Some ''foo'') (Some ''v-bad'') (mock_world (Inl (HttpError 404))))
     = Inl (InvalidVersionError (Http 404))
   \<and> fst (set_num_instances setUp_environ (PyInt (- 1)) (Some ''foo'') (Some ''v-bad'')
            (mock_world (Inl (HttpError 400))))
     = Inl (InvalidInstancesError (Http 400))
   \<and> fst (stop_version setUp_environ (Some ''foo'') (Some ''v-bad'') (mock_world (Inl (HttpError 500))))
     = Inl (TransientError (Http 500))
   \<and> fst (stop_version setUp_environ (Some ''foo'') (Some ''v-bad'') (mock_world (Inl (HttpError 401))))
     = Inl (Error (Http 401))"
proof -
  have int: "isinstance_integer_types (PyInt (- 1))" by simp
  note t = http_failures_translated [OF setUp_project setUp_version_given [of "''v-bad''"] int,
             where module_arg = "Some ''foo''"]
  from t [of "mock_world (Inl (HttpError 404))" 404]
       t [of "mock_world (Inl (HttpError 400))" 400]
       t [of "mock_world (Inl (HttpError 500))" 500]
       t [of "mock_world (Inl (HttpError 401))" 401]
  show ?thesis
    by (simp add: mock_answer setUp_module_given)
qed

subsection \<open>Validation of the instance count\<close>

text \<open>
  C8. When the \<^verbatim>\<open>instances\<close> argument is not of an integer type,
  \<^verbatim>\<open>set_num_instances_async\<close> and \<^verbatim>\<open>set_num_instances\<close> raise TypeError and leave the
  world as it was: no request has been sent and no thread started. The environment is
  arbitrary, so the error comes before the project id is resolved.
\<close>

theorem non_integral_instances_rejected:
  assumes "\<not> isinstance_integer_types instances"
  shows "set_num_instances_async env instances module_arg version_arg w
           = (Inl (TypeError ''instances arg must be of type long or int.''), w)
         \<and> set_num_instances env instances module_arg version_arg w
           = (Inl (TypeError ''instances arg must be of type long or int.''), w)"
  using assms by (simp add: set_num_instances_def set_num_instances_async_def)

theorem non_integral_instances_rejected_witness:
  "set_num_instances_async Map.empty (PyStr ''not-an-int'') None None (mock_world (Inl (HttpError 500)))
     = (Inl (TypeError ''instances arg must be of type long or int.''), mock_world (Inl (HttpError 500)))
   \<and> set_num_instances Map.empty (PyStr ''not-an-int'') None None (mock_world (Inl (HttpError 500)))
     = (Inl (TypeError ''instances arg must be of type long or int.''), mock_world (Inl (HttpError 500)))"
  using non_integral_instances_rejected [of "PyStr ''not-an-int''" Map.empty None None
          "mock_world (Inl (HttpError 500))"]
  by simp

subsection \<open>Synchronous and asynchronous forms\<close>

text \<open>
  C9. Each of \<^verbatim>\<open>set_num_instances\<close>, \<^verbatim>\<open>start_version\<close> and \<^verbatim>\<open>stop_version\<close> is its
  asynchronous form followed at once by waiting for the handle and unwrapping its
  result: the same outcome and the same world after it, from every world.
\<close>

theorem synchronous_forms_compose_asynchronous:
  "set_num_instances env instances module_arg version_arg
     = await_and_unwrap (set_num_instances_async env instances module_arg version_arg)
   \<and> start_version env module_arg version_arg = await_and_unwrap (start_version_async env module_arg version_arg)
   \<and> stop_version env module_arg version_arg = await_and_unwrap (stop_version_async env module_arg version_arg)"
  by (auto simp add: fun_eq_iff set_num_instances_def start_version_def stop_version_def
        await_and_unwrap_def get_result_def check_success_def Let_def
      split: prod.splits sum.splits option.splits)

subsection \<open>Instance count of a version without manual scaling\<close>

text \<open>
  C10. When the version object fetched by \<^verbatim>\<open>get_num_instances\<close> has no
  \<^verbatim>\<open>manualScaling\<close> key, the function returns 0; and once the request has been built
  (the version and the project id resolved), it raises only if the request raised.
\<close>

theorem unscaled_version_has_no_instances:
  assumes "version_or_current env version_arg = Inr version"
    and "get_project_id env = Inr project_id"
  shows "(\<forall>response.
            remote w (sent w) (VersionsGet project_id (module_or_current env module_arg) version)
              = Inr response \<and> manualScaling response = None
            \<longrightarrow> fst (get_num_instances env module_arg version_arg w) = Inr (Some 0))
         \<and> (\<forall>e. fst (get_num_instances env module_arg version_arg w) = Inl e
            \<longrightarrow> (\<exists>e'. remote w (sent w) (VersionsGet project_id (module_or_current env module_arg) version)
                       = Inl e'))"
  using assms
  by (auto simp add: get_num_instances_def execute_def Let_def split: sum.splits option.splits)

theorem unscaled_version_has_no_instances_witness:
  "fst (get_num_instances setUp_environ None None
          (mock_world (Inr \<lparr>split = None, manualScaling = None, defaultHostname = None\<rparr>)))
     = Inr (Some 0)
   \<and> (\<exists>e'. remote (mock_world (Inl (HttpError 404))) (sent (mock_world (Inl (HttpError 404))))
              (VersionsGet ''project'' (module_or_current setUp_environ None) (Some ''v1'')) = Inl e')"
proof -
  have zero: "fst (get_num_instances setUp_environ None None
          (mock_world (Inr \<lparr>split = None, manualScaling = None, defaultHostname = None\<rparr>)))
     = Inr (Some 0)"
    using unscaled_version_has_no_instances [OF setUp_version setUp_project,
        of "mock_world (Inr \<lparr>split = None, manualScaling = None, defaultHostname = None\<rparr>)" None]
    by (simp add: mock_world_def)
  have raised: "fst (get_num_instances setUp_environ None None (mock_world (Inl (HttpError 404))))
     = Inl (InvalidVersionError (Http 404))"
    by (simp add: get_num_instances_def setUp_version setUp_project setUp_module execute_def
          mock_world_def raise_error_def)
  from raised unscaled_version_has_no_instances [OF setUp_version setUp_project,
        of "mock_world (Inl (HttpError 404))" None]
  have "\<exists>e'. remote (mock_world (Inl (HttpError 404))) (sent (mock_world (Inl (HttpError 404))))
              (VersionsGet ''project'' (module_or_current setUp_environ None) (Some ''v1'')) = Inl e'"
    by blast
  with zero show ?thesis by simp
qed

end
